theory Spec2Isabelle
  imports Complex_Main "HOL-Library.Multiset" "HOL-Library.Log_Nat"
begin

section \<open>Values of the fetched data\<close>

text \<open>
  The pipeline of \<^verbatim>\<open>fetch_correlation_data.py\<close> works on decoded JSON: \<^verbatim>\<open>None\<close>,
  booleans, unbounded integers, floats, strings, lists and dictionaries. A dictionary is an
  association list read with \<open>map_of\<close>; a float is the rational number it denotes, or one
  of the three special values that \<^verbatim>\<open>json.loads\<close> accepts. Strings are \<open>char list\<close>; the
  keys the code looks up are ASCII.
\<close>

datatype pyfloat = Finite rat | PosInf | NegInf | NaN

datatype json =
    JNull
  | JBool bool
  | JInt int
  | JFloat pyfloat
  | JStr string
  | JList "json list"
  | JDict "(string \<times> json) list"

type_synonym pydict = "(string \<times> json) list"

text \<open>The exceptions that the modelled code can raise.\<close>

datatype exn =
    JSONDecodeError
  | TypeError
  | AttributeError
  | ZeroDivisionError
  | OSError
  | HTTPError int string
  | URLError
  | RecursionError
  | ValueError
  | MemoryError

text \<open>
  \<^verbatim>\<open>json.loads\<close> belongs to the standard library, not to the repository. It is a parameter
  of the model: \<open>loads s = Inr v\<close> when the text decodes to \<open>v\<close>, and \<open>loads s = Inl e\<close> when
  the call raises \<open>e\<close>. A text that is not JSON raises \<^verbatim>\<open>JSONDecodeError\<close>; the decoder
  of the standard library also raises \<^verbatim>\<open>RecursionError\<close> on a text nested too deeply and
  \<^verbatim>\<open>ValueError\<close> on an integer with too many digits.
\<close>

type_synonym decoder = "string \<Rightarrow> exn + json"

text \<open>Python's truth value of a decoded value (\<^verbatim>\<open>bool(x)\<close>, \<^verbatim>\<open>if x\<close>, \<^verbatim>\<open>not x\<close>).\<close>

fun truthy :: "json \<Rightarrow> bool" where
  "truthy JNull = False"
| "truthy (JBool b) = b"
| "truthy (JInt i) = (i \<noteq> 0)"
| "truthy (JFloat f) = (f \<noteq> Finite 0)"
| "truthy (JStr s) = (s \<noteq> [])"
| "truthy (JList xs) = (xs \<noteq> [])"
| "truthy (JDict kvs) = (kvs \<noteq> [])"

text \<open>\<^verbatim>\<open>d.get(k, default)\<close>; \<^verbatim>\<open>d.get(k)\<close> is \<open>dict_get d k JNull\<close>.\<close>

definition dict_get :: "pydict \<Rightarrow> string \<Rightarrow> json \<Rightarrow> json" where
  "dict_get d k dflt = (case map_of d k of Some v \<Rightarrow> v | None \<Rightarrow> dflt)"

section \<open>Parsing the citation payload\<close>

text \<open>
  The dispatch on the shape of the decoded payload, lines 94 to 102 of the source:
  a dictionary with a \<^verbatim>\<open>resources\<close> key gives that value when it is a list and \<open>[]\<close>
  otherwise, a dictionary without the key gives the one-element list of itself, a list is
  returned as it is, anything else gives \<open>[]\<close>.
\<close>

fun resources_of_parsed :: "json \<Rightarrow> json list" where
  "resources_of_parsed (JDict kvs) =
     (case map_of kvs ''resources'' of
        Some v \<Rightarrow> (case v of JList xs \<Rightarrow> xs | _ \<Rightarrow> [])
      | None \<Rightarrow> [JDict kvs])"
| "resources_of_parsed (JList xs) = xs"
| "resources_of_parsed _ = []"

text \<open>The body of the \<^verbatim>\<open>try\<close> block: a string is decoded first, which may raise.\<close>

definition parse_resources_try :: "decoder \<Rightarrow> json \<Rightarrow> exn + json list" where
  "parse_resources_try loads resources_data =
     (case resources_data of
        JStr s \<Rightarrow>
          (case loads s of
             Inl e \<Rightarrow> Inl e
           | Inr parsed \<Rightarrow> Inr (resources_of_parsed parsed))
      | _ \<Rightarrow> Inr (resources_of_parsed resources_data))"

text \<open>
  \<^verbatim>\<open>parse_resources\<close>: a falsy payload returns \<open>[]\<close> before the \<^verbatim>\<open>try\<close>; the handler
  catches \<^verbatim>\<open>JSONDecodeError\<close> and \<^verbatim>\<open>TypeError\<close> and returns \<open>[]\<close>; any other exception
  of the decoder propagates to the caller.
\<close>

definition parse_resources :: "decoder \<Rightarrow> json \<Rightarrow> exn + json list" where
  "parse_resources loads resources_data =
     (if \<not> truthy resources_data then Inr []
      else (case parse_resources_try loads resources_data of
              Inl JSONDecodeError \<Rightarrow> Inr []
            | Inl TypeError \<Rightarrow> Inr []
            | Inl e \<Rightarrow> Inl e
            | Inr parsed \<Rightarrow> Inr parsed))"

section \<open>Python's floats\<close>

text \<open>
  A float is the rational number it denotes. \<open>to_float x\<close> is the binary64 number nearest
  to \<open>x\<close>, ties going to the even significand: with \<open>2 ^ e \<le> \<bar>x\<bar> < 2 ^ (e + 1)\<close> it is the
  multiple of \<open>2 ^ (e - 52)\<close> nearest to \<open>x\<close>. The range of the exponent is not bounded here:
  overflow and subnormal numbers do not occur for the quantities of this program, which
  are quotients and sums of list lengths.
\<close>

definition round_half_even :: "rat \<Rightarrow> int" where
  "round_half_even x =
     (let n = \<lfloor>x\<rfloor>; d = x - of_int n
      in if d < 1 / 2 then n else if 1 / 2 < d then n + 1 else if even n then n else n + 1)"

text \<open>For \<open>0 < x\<close>, the integer \<open>e\<close> with \<open>2 ^ e \<le> x < 2 ^ (e + 1)\<close>.\<close>

definition exponent :: "rat \<Rightarrow> int" where
  "exponent x =
     (let (a, b) = quotient_of x; d = bitlen a - bitlen b
      in if 2 powi d \<le> x then d else d - 1)"

definition to_float :: "rat \<Rightarrow> rat" where
  "to_float x =
     (if x = 0 then 0
      else (let e = exponent \<bar>x\<bar>
            in of_int (round_half_even (x * 2 powi (52 - e))) * 2 powi (e - 52)))"

text \<open>
  The operations that the program applies to numbers. \<^verbatim>\<open>a / b\<close> on two integers is the
  correctly rounded quotient; \<^verbatim>\<open>x * y\<close> and \<^verbatim>\<open>x + y\<close> on floats round the exact result;
  \<^verbatim>\<open>x / n\<close> with a float and an integer converts the integer first. The program
  divides only by the length of a list that it has found not to be empty, so division by
  zero, which raises in Python, is not part of these operations.
\<close>

definition int_true_div :: "int \<Rightarrow> int \<Rightarrow> rat" where
  "int_true_div a b = to_float (of_int a / of_int b)"

definition float_mul :: "rat \<Rightarrow> rat \<Rightarrow> rat" where
  "float_mul x y = to_float (x * y)"

definition float_add :: "rat \<Rightarrow> rat \<Rightarrow> rat" where
  "float_add x y = to_float (x + y)"

definition float_div_int :: "rat \<Rightarrow> int \<Rightarrow> rat" where
  "float_div_int x n = to_float (x / to_float (of_int n))"

text \<open>
  The built-in \<^verbatim>\<open>sum\<close> on floats: it starts at 0 and adds the elements from left to right,
  rounding after each addition. This is the summation of CPython up to version 3.11;
  later versions carry a correction term along.
\<close>

definition float_sum :: "rat list \<Rightarrow> rat" where
  "float_sum xs = foldl float_add 0 xs"

section \<open>Enriching a record\<close>

text \<open>One entry of \<^verbatim>\<open>sources_details\<close>.\<close>

record source_detail =
  url :: json
  domain :: json
  is_customer_mentioned :: bool

text \<open>
  The record built by \<^verbatim>\<open>analyze_data\<close> for one query execution. Integers are Python's
  unbounded integers. \<^verbatim>\<open>brand_mention_percentage\<close> is a float (or the integer 0), held
  as the rational number it denotes.
\<close>

record enriched =
  id_field :: json
  query_id :: json
  query_group_id :: json
  execution_id :: json
  create_date :: json
  product_in_results :: json
  brand_in_response :: bool
  resources_raw :: json
  resources_log :: json
  product_result_raw_log :: json
  competitors_log :: json
  query_results_log :: json
  bd_response_log :: json
  run_log :: json
  competitors_raw :: json
  resources_parsed :: "json list"
  total_sources :: int
  sources_with_brand :: int
  sources_details :: "source_detail list"
  brand_mention_percentage :: rat

text \<open>
  The inner loop, lines 194 to 209: \<open>n\<close> is \<^verbatim>\<open>sources_with_brand\<close> and \<open>ds\<close> is
  \<^verbatim>\<open>sources_details\<close> so far. An element that is not a dictionary is passed over.
\<close>

fun count_sources :: "json list \<Rightarrow> int \<Rightarrow> source_detail list \<Rightarrow> int \<times> source_detail list" where
  "count_sources [] n ds = (n, ds)"
| "count_sources (JDict resource # rest) n ds =
     (let is_mentioned = truthy (dict_get resource ''is_customer_mentioned'' (JBool False))
      in count_sources rest (if is_mentioned then n + 1 else n)
           (ds @ [\<lparr>url = dict_get resource ''url'' (JStr ''''),
                   domain = dict_get resource ''Domain'' (JStr ''''),
                   is_customer_mentioned = is_mentioned\<rparr>]))"
| "count_sources (_ # rest) n ds = count_sources rest n ds"

text \<open>The body of the outer loop of \<^verbatim>\<open>analyze_data\<close> for one raw record \<open>qe\<close>.\<close>

definition analyze_record :: "decoder \<Rightarrow> pydict \<Rightarrow> exn + enriched" where
  "analyze_record loads qe =
     (case parse_resources loads (dict_get qe ''resources'' JNull) of
        Inl e \<Rightarrow> Inl e
      | Inr resources \<Rightarrow>
          (let total = int (length resources);
               (with_brand, details) = count_sources resources 0 []
           in Inr \<lparr>id_field = dict_get qe ''id'' JNull,
                   query_id = dict_get qe ''query_id'' JNull,
                   query_group_id = dict_get qe ''query_group_id'' JNull,
                   execution_id = dict_get qe ''execution_id'' JNull,
                   create_date = dict_get qe ''create_date'' JNull,
                   product_in_results = dict_get qe ''product_in_results'' (JInt 0),
                   brand_in_response = truthy (dict_get qe ''product_in_results'' (JInt 0)),
                   resources_raw = dict_get qe ''resources'' JNull,
                   resources_log = dict_get qe ''resources_log'' JNull,
                   product_result_raw_log = dict_get qe ''product_result_raw_log'' JNull,
                   competitors_log = dict_get qe ''competitors_log'' JNull,
                   query_results_log = dict_get qe ''query_results_log'' JNull,
                   bd_response_log = dict_get qe ''bd_response_log'' JNull,
                   run_log = dict_get qe ''run_log'' JNull,
                   competitors_raw = dict_get qe ''competitors'' JNull,
                   resources_parsed = resources,
                   total_sources = total,
                   sources_with_brand = with_brand,
                   sources_details = details,
                   brand_mention_percentage =
                     (if total > 0 then float_mul (int_true_div with_brand total) 100
                      else 0)\<rparr>))"

text \<open>\<^verbatim>\<open>analyze_data\<close>: the records are processed in order and appended to \<^verbatim>\<open>results\<close>.\<close>

fun analyze_loop :: "decoder \<Rightarrow> pydict list \<Rightarrow> enriched list \<Rightarrow> exn + enriched list" where
  "analyze_loop loads [] results = Inr results"
| "analyze_loop loads (qe # rest) results =
     (case analyze_record loads qe of
        Inl e \<Rightarrow> Inl e
      | Inr record \<Rightarrow> analyze_loop loads rest (results @ [record]))"

definition analyze_data :: "decoder \<Rightarrow> pydict list \<Rightarrow> exn + enriched list" where
  "analyze_data loads queries_execution_data = analyze_loop loads queries_execution_data []"


section \<open>Fetching and filtering\<close>

text \<open>
  The network is the environment of \<^verbatim>\<open>api_call\<close>: \<open>outcome\<close> is what
  \<^verbatim>\<open>urlopen(...)\<close> followed by \<^verbatim>\<open>resp.read()\<close> does, either an exception
  (\<^verbatim>\<open>HTTPError\<close> with its code and reason, or any other one) or the bytes of the body.
  The body of the \<^verbatim>\<open>try\<close> block decodes the body and calls \<^verbatim>\<open>result.get\<close>, which
  raises \<^verbatim>\<open>AttributeError\<close> when the decoded value is not a dictionary.
\<close>

definition api_call_try :: "decoder \<Rightarrow> exn + string \<Rightarrow> exn + json" where
  "api_call_try loads outcome =
     (case outcome of
        Inl e \<Rightarrow> Inl e
      | Inr body \<Rightarrow>
          (case loads body of
             Inl e \<Rightarrow> Inl e
           | Inr result \<Rightarrow>
               (case result of
                  JDict kvs \<Rightarrow> Inr (dict_get kvs ''data'' result)
                | _ \<Rightarrow> Inl AttributeError)))"

text \<open>
  \<^verbatim>\<open>api_call\<close>: without a key it returns \<^verbatim>\<open>None\<close> before any request; both handlers
  (\<^verbatim>\<open>HTTPError\<close> and \<^verbatim>\<open>Exception\<close>) print a warning and return \<^verbatim>\<open>None\<close>. Python's
  \<^verbatim>\<open>None\<close> is \<open>JNull\<close>. Console output is not modelled.
\<close>

definition api_call :: "string \<Rightarrow> decoder \<Rightarrow> exn + string \<Rightarrow> json" where
  "api_call api_key loads outcome =
     (if api_key = [] then JNull
      else (case api_call_try loads outcome of
              Inl (HTTPError code reason) \<Rightarrow> JNull
            | Inl e \<Rightarrow> JNull
            | Inr data \<Rightarrow> data))"

text \<open>
  The filter loop of \<^verbatim>\<open>fetch_queries_execution_data\<close>, lines 131 to 138; \<open>kept\<close> is
  \<^verbatim>\<open>records_with_sources\<close> so far. \<^verbatim>\<open>record.get\<close> raises \<^verbatim>\<open>AttributeError\<close> on an
  element that is not a dictionary.
\<close>

fun records_with_sources :: "decoder \<Rightarrow> json list \<Rightarrow> pydict list \<Rightarrow> exn + pydict list" where
  "records_with_sources loads [] kept = Inr kept"
| "records_with_sources loads (JDict record # rest) kept =
     (let resources_raw = dict_get record ''resources'' JNull
      in if truthy resources_raw then
           (case parse_resources loads resources_raw of
              Inl e \<Rightarrow> Inl e
            | Inr parsed \<Rightarrow>
                if length parsed > 0 then records_with_sources loads rest (kept @ [record])
                else records_with_sources loads rest kept)
         else records_with_sources loads rest kept)"
| "records_with_sources loads (_ # rest) kept = Inl AttributeError"

text \<open>
  \<^verbatim>\<open>fetch_queries_execution_data\<close>. The request body (table name, limit, ordering,
  execution id) only reaches the network, whose answer is \<open>outcome\<close>. A truthy \<open>data\<close>
  that is a number or \<^verbatim>\<open>True\<close> fails at \<^verbatim>\<open>len(data)\<close>; iterating over a dictionary or a
  string yields strings, which have no \<^verbatim>\<open>get\<close>.
\<close>

definition fetch_queries_execution_data ::
    "string \<Rightarrow> decoder \<Rightarrow> exn + string \<Rightarrow> exn + pydict list" where
  "fetch_queries_execution_data api_key loads outcome =
     (let data = api_call api_key loads outcome
      in if truthy data then
           (case data of
              JList records \<Rightarrow> records_with_sources loads records []
            | JDict kvs \<Rightarrow> Inl AttributeError
            | JStr s \<Rightarrow> Inl AttributeError
            | _ \<Rightarrow> Inl TypeError)
         else Inr [])"

section \<open>Summary statistics\<close>

record summary =
  total_records :: int
  records_with_brand_in_response :: int
  records_without_brand_in_response :: int
  note_field :: string
  avg_sources_when_mentioned :: rat
  avg_sources_when_not_mentioned :: rat
  avg_brand_sources_when_mentioned :: rat
  avg_brand_sources_when_not_mentioned :: rat
  avg_brand_pct_when_mentioned :: rat
  avg_brand_pct_when_not_mentioned :: rat

definition mentioned_group :: "enriched list \<Rightarrow> enriched list" where
  "mentioned_group analyzed_data = filter (\<lambda>r. brand_in_response r) analyzed_data"

definition not_mentioned_group :: "enriched list \<Rightarrow> enriched list" where
  "not_mentioned_group analyzed_data = filter (\<lambda>r. \<not> brand_in_response r) analyzed_data"

text \<open>
  \<^verbatim>\<open>generate_summary_stats\<close>: the six averages start at 0 and are overwritten only for a
  group that is not empty. The sums of the two counters are integer sums, divided by the
  size of the group with Python's true division; the percentages are floats, added by
  \<^verbatim>\<open>sum\<close> in the order of the list.
\<close>

definition generate_summary_stats :: "enriched list \<Rightarrow> summary" where
  "generate_summary_stats analyzed_data =
     (let total = int (length analyzed_data);
          with_response_mention =
            sum_list (map (\<lambda>r. if brand_in_response r then 1 else 0) analyzed_data);
          mg = mentioned_group analyzed_data;
          ng = not_mentioned_group analyzed_data
      in \<lparr>total_records = total,
          records_with_brand_in_response = with_response_mention,
          records_without_brand_in_response = total - with_response_mention,
          note_field = ''All records have sources (records without sources were excluded)'',
          avg_sources_when_mentioned =
            (if mg \<noteq> [] then int_true_div (sum_list (map total_sources mg)) (int (length mg))
             else 0),
          avg_sources_when_not_mentioned =
            (if ng \<noteq> [] then int_true_div (sum_list (map total_sources ng)) (int (length ng))
             else 0),
          avg_brand_sources_when_mentioned =
            (if mg \<noteq> [] then int_true_div (sum_list (map sources_with_brand mg)) (int (length mg))
             else 0),
          avg_brand_sources_when_not_mentioned =
            (if ng \<noteq> [] then int_true_div (sum_list (map sources_with_brand ng)) (int (length ng))
             else 0),
          avg_brand_pct_when_mentioned =
            (if mg \<noteq> []
             then float_div_int (float_sum (map brand_mention_percentage mg)) (int (length mg))
             else 0),
          avg_brand_pct_when_not_mentioned =
            (if ng \<noteq> []
             then float_div_int (float_sum (map brand_mention_percentage ng)) (int (length ng))
             else 0)\<rparr>)"

section \<open>Writing the results and the main function\<close>

text \<open>
  The three files of \<^verbatim>\<open>save_results\<close>, in the order in which they are written. The file
  system is the list of files written so far; \<open>write_ok\<close> tells whether opening and writing
  a file succeeds, and \<open>makedirs_ok\<close> whether \<^verbatim>\<open>os.makedirs\<close> does. A failure raises
  \<^verbatim>\<open>OSError\<close>, which nothing catches. The contents of the files are not modelled.
\<close>

datatype artifact = FullData | SummaryFile | CsvFile

record io_env =
  makedirs_ok :: bool
  write_ok :: "artifact \<Rightarrow> bool"

text \<open>The outcome of a run: the files written, and the uncaught exception if there is one.\<close>

record run =
  written :: "artifact list"
  raised :: "exn option"

definition save_results :: "io_env \<Rightarrow> enriched list \<Rightarrow> summary \<Rightarrow> run" where
  "save_results io analyzed_data summ =
     (if \<not> makedirs_ok io then \<lparr>written = [], raised = Some OSError\<rparr>
      else if \<not> write_ok io FullData then \<lparr>written = [], raised = Some OSError\<rparr>
      else if \<not> write_ok io SummaryFile then \<lparr>written = [FullData], raised = Some OSError\<rparr>
      else if \<not> write_ok io CsvFile then
        \<lparr>written = [FullData, SummaryFile], raised = Some OSError\<rparr>
      else \<lparr>written = [FullData, SummaryFile, CsvFile], raised = None\<rparr>)"

text \<open>
  \<^verbatim>\<open>main\<close>: an empty (or failed) fetch returns before anything is written. The summary
  printed at lines 366 and 367 divides by \<^verbatim>\<open>summary['total_records']\<close>.
\<close>

definition main :: "string \<Rightarrow> decoder \<Rightarrow> exn + string \<Rightarrow> io_env \<Rightarrow> run" where
  "main api_key loads outcome io =
     (case fetch_queries_execution_data api_key loads outcome of
        Inl e \<Rightarrow> \<lparr>written = [], raised = Some e\<rparr>
      | Inr queries_execution_data \<Rightarrow>
          if queries_execution_data = [] then \<lparr>written = [], raised = None\<rparr>
          else
            (case analyze_data loads queries_execution_data of
               Inl e \<Rightarrow> \<lparr>written = [], raised = Some e\<rparr>
             | Inr analyzed_data \<Rightarrow>
                 (let summ = generate_summary_stats analyzed_data
                  in if total_records summ = 0
                     then \<lparr>written = [], raised = Some ZeroDivisionError\<rparr>
                     else save_results io analyzed_data summ)))"

section \<open>Notions used to state the properties\<close>

text \<open>The elements of a parsed payload that are dictionaries, in order.\<close>

fun is_mapping :: "json \<Rightarrow> bool" where
  "is_mapping (JDict kvs) = True"
| "is_mapping _ = False"

fun is_string :: "json \<Rightarrow> bool" where
  "is_string (JStr s) = True"
| "is_string _ = False"

fun mappings :: "json list \<Rightarrow> pydict list" where
  "mappings [] = []"
| "mappings (JDict d # xs) = d # mappings xs"
| "mappings (_ # xs) = mappings xs"

text \<open>What the inner loop of \<^verbatim>\<open>analyze_data\<close> computes for one dictionary.\<close>

definition mentions :: "pydict \<Rightarrow> bool" where
  "mentions resource = truthy (dict_get resource ''is_customer_mentioned'' (JBool False))"

definition detail_of :: "pydict \<Rightarrow> source_detail" where
  "detail_of resource =
     \<lparr>url = dict_get resource ''url'' (JStr ''''),
      domain = dict_get resource ''Domain'' (JStr ''''),
      is_customer_mentioned = mentions resource\<rparr>"

text \<open>
  Texts for concrete evaluation, and a decoder that agrees with \<^verbatim>\<open>json.loads\<close> on them;
  beyond these texts it is evaluated below only on \<^verbatim>\<open>not json\<close>, which is not JSON.
\<close>

definition empty_body :: string where
  \<open>empty_body = ''{"data": []}''\<close>

definition two_records_body :: string where
  \<open>two_records_body =
     ''{"data": [{"id": 1, "product_in_results": 1, "resources": [{"is_customer_mentioned": true}]}, {"id": 2, "resources": null}]}''\<close>

definition sample_loads :: decoder where
  "sample_loads s =
     (if s = ''{}'' then Inr (JDict [])
      else if s = ''[]'' then Inr (JList [])
      else if s = empty_body then Inr (JDict [(''data'', JList [])])
      else if s = two_records_body then
        Inr (JDict [(''data'', JList
          [JDict [(''id'', JInt 1), (''product_in_results'', JInt 1),
                  (''resources'', JList [JDict [(''is_customer_mentioned'', JBool True)]])],
           JDict [(''id'', JInt 2), (''resources'', JNull)]])])
      else Inl JSONDecodeError)"

text \<open>
  The payloads on which the decoder, if \<^verbatim>\<open>parse_resources\<close> calls it, returns a value or
  raises one of the two exceptions that the handler names.
\<close>

definition decoder_handled :: "decoder \<Rightarrow> json \<Rightarrow> bool" where
  "decoder_handled loads p =
     (case p of
        JStr s \<Rightarrow>
          (case loads s of Inl e \<Rightarrow> e = JSONDecodeError \<or> e = TypeError | Inr v \<Rightarrow> True)
      | _ \<Rightarrow> True)"

text \<open>
  The filter as the specification words it: a record is kept iff its citation payload is
  truthy and normalising it yields at least one element.
\<close>

definition spec_keeps :: "decoder \<Rightarrow> pydict \<Rightarrow> bool" where
  "spec_keeps loads record =
     (truthy (dict_get record ''resources'' JNull) \<and>
      (case parse_resources loads (dict_get record ''resources'' JNull) of
         Inl e \<Rightarrow> False
       | Inr parsed \<Rightarrow> parsed \<noteq> []))"

text \<open>An environment in which every file operation succeeds.\<close>

definition io_all_ok :: io_env where
  "io_all_ok = \<lparr>makedirs_ok = True, write_ok = (\<lambda>a. True)\<rparr>"

text \<open>
  An enriched record with every field at its default, for concrete evaluation of the
  summary; the examples below change the four fields that the summary reads.
\<close>

definition blank_record :: enriched where
  "blank_record =
     \<lparr>id_field = JNull, query_id = JNull, query_group_id = JNull, execution_id = JNull,
      create_date = JNull, product_in_results = JInt 0, brand_in_response = False,
      resources_raw = JNull, resources_log = JNull, product_result_raw_log = JNull,
      competitors_log = JNull, query_results_log = JNull, bd_response_log = JNull,
      run_log = JNull, competitors_raw = JNull, resources_parsed = [], total_sources = 0,
      sources_with_brand = 0, sources_details = [], brand_mention_percentage = 0\<rparr>"

definition mentioned_example :: enriched where
  "mentioned_example =
     blank_record\<lparr>brand_in_response := True, total_sources := 4, sources_with_brand := 2,
                  brand_mention_percentage := 50\<rparr>"

definition not_mentioned_example :: enriched where
  "not_mentioned_example =
     blank_record\<lparr>brand_in_response := False, total_sources := 2, sources_with_brand := 0,
                  brand_mention_percentage := 0\<rparr>"

text \<open>
  The record of an execution whose answer mentions the brand and that has \<open>n\<close> sources, one
  of which mentions the brand; the percentage is the one that \<^verbatim>\<open>analyze_data\<close> computes.
\<close>

definition one_in :: "int \<Rightarrow> enriched" where
  "one_in n =
     blank_record\<lparr>brand_in_response := True, total_sources := n, sources_with_brand := 1,
                  brand_mention_percentage := float_mul (int_true_div 1 n) 100\<rparr>"

section \<open>Properties of the floats\<close>

lemma to_float_zero: "to_float 0 = 0"
  by (simp add: to_float_def)

lemma exponent_le:
  assumes "0 < x"
  shows "2 powi (exponent x) \<le> x"
proof -
  obtain a b where q: "quotient_of x = (a, b)"
    by (cases "quotient_of x")
  have b: "0 < b"
    using q by (rule quotient_of_denom_pos)
  have x: "x = of_int a / of_int b"
    using q by (rule quotient_of_div)
  have a: "0 < a"
    using assms b x by (simp add: zero_less_divide_iff)
  let ?d = "bitlen a - bitlen b"
  have la: "(2::int) ^ nat (bitlen a - 1) \<le> a" and la1: "1 \<le> bitlen a"
    using bitlen_bounds [OF a] a by (simp_all add: bitlen_alt_def)
  have lb: "b < 2 ^ nat (bitlen b)" and lb1: "0 \<le> bitlen b"
    using bitlen_bounds [OF b] by (simp_all add: bitlen_nonneg)
  have "?d - 1 = (bitlen a - 1) - bitlen b"
    by simp
  then have "(2::rat) powi (?d - 1) = 2 powi ((bitlen a - 1) - bitlen b)"
    by (simp only:)
  also have "\<dots> = 2 powi (bitlen a - 1) / 2 powi (bitlen b)"
    by (rule power_int_diff) simp
  also have "\<dots> = of_int (2 ^ nat (bitlen a - 1)) / of_int (2 ^ nat (bitlen b))"
    using la1 lb1 by (simp add: power_int_def)
  also have "\<dots> \<le> of_int a / of_int (2 ^ nat (bitlen b))"
    using la by (intro divide_right_mono) (simp_all del: of_int_power)
  also have "\<dots> \<le> of_int a / of_int b"
    using lb a b by (intro divide_left_mono) (simp_all del: of_int_power add: less_imp_le)
  finally have low: "(2::rat) powi (?d - 1) \<le> x"
    using x by simp
  show ?thesis
    using low by (simp add: exponent_def q Let_def)
qed

lemma round_half_even_nonneg: "0 \<le> x \<Longrightarrow> 0 \<le> round_half_even x"
  by (simp add: round_half_even_def Let_def)

lemma round_half_even_le:
  assumes "x \<le> of_int m"
  shows "round_half_even x \<le> m"
proof (cases "x = of_int m")
  case True
  then show ?thesis
    by (simp add: round_half_even_def Let_def)
next
  case False
  then have "x < of_int m"
    using assms by simp
  then have "\<lfloor>x\<rfloor> < m"
    by (simp add: floor_less_iff)
  moreover have "\<lfloor>x\<rfloor> \<le> m"
    using assms by (simp add: floor_le_iff)
  ultimately show ?thesis
    by (simp add: round_half_even_def Let_def)
qed

lemma to_float_nonneg:
  assumes "0 \<le> x"
  shows "0 \<le> to_float x"
proof (cases "x = 0")
  case True
  then show ?thesis by (simp add: to_float_def)
next
  case False
  have "0 \<le> x * 2 powi (52 - exponent \<bar>x\<bar>)"
    using assms by simp
  then have "0 \<le> round_half_even (x * 2 powi (52 - exponent \<bar>x\<bar>))"
    by (rule round_half_even_nonneg)
  then show ?thesis
    using False by (simp add: to_float_def Let_def)
qed

text \<open>Rounding does not pass an integer below \<open>2 ^ 53\<close>, which is a float.\<close>

lemma to_float_le_int:
  assumes "0 \<le> x" and "x \<le> of_int m" and "m < 2 ^ 53"
  shows "to_float x \<le> of_int m"
proof (cases "x = 0")
  case True
  then show ?thesis using assms by (simp add: to_float_def)
next
  case False
  then have pos: "0 < x"
    using assms by simp
  let ?e = "exponent \<bar>x\<bar>"
  have "2 powi ?e \<le> x"
    using exponent_le [OF pos] pos by simp
  also have "x \<le> of_int m"
    by (rule assms)
  also have "(of_int m :: rat) < of_int (2 ^ 53)"
    using assms(3) by (simp only: of_int_less_iff)
  also have "(of_int (2 ^ 53) :: rat) = 2 powi 53"
    by simp
  finally have "(2::rat) powi ?e < 2 powi 53" .
  then have "?e < 53"
    by (rule power_int_le_imp_less_exp [rotated]) simp_all
  then have e: "0 \<le> 52 - ?e"
    by simp
  have "x * 2 powi (52 - ?e) \<le> of_int m * 2 powi (52 - ?e)"
    using assms by (intro mult_right_mono) simp_all
  also have "\<dots> = of_int (m * 2 ^ nat (52 - ?e))"
    using e by (simp add: power_int_def)
  finally have "round_half_even (x * 2 powi (52 - ?e)) \<le> m * 2 ^ nat (52 - ?e)"
    by (rule round_half_even_le)
  then have "of_int (round_half_even (x * 2 powi (52 - ?e)))
      \<le> (of_int (m * 2 ^ nat (52 - ?e)) :: rat)"
    by (simp only: of_int_le_iff)
  then have "of_int (round_half_even (x * 2 powi (52 - ?e))) * 2 powi (?e - 52)
      \<le> (of_int (m * 2 ^ nat (52 - ?e)) :: rat) * 2 powi (?e - 52)"
    by (intro mult_right_mono) simp_all
  also have "(of_int (m * 2 ^ nat (52 - ?e)) :: rat) * 2 powi (?e - 52) = of_int m"
  proof -
    have "(of_int (m * 2 ^ nat (52 - ?e)) :: rat) = of_int m * 2 powi (52 - ?e)"
      using e by (simp add: power_int_def)
    moreover have "(2::rat) powi (52 - ?e) * 2 powi (?e - 52) = 1"
      by (simp flip: power_int_add)
    ultimately show ?thesis
      by (simp only: mult.assoc mult_1_right)
  qed
  finally show ?thesis
    using False by (simp add: to_float_def Let_def)
qed

text \<open>The percentage of \<open>s\<close> sources among \<open>t\<close>, as the float that the program computes.\<close>

lemma percentage_bounds:
  assumes "0 \<le> s" and "s \<le> t" and "0 < t"
  shows "0 \<le> float_mul (int_true_div s t) 100" and "float_mul (int_true_div s t) 100 \<le> 100"
proof -
  have q0: "0 \<le> (of_int s / of_int t :: rat)"
    using assms by simp
  have q1: "(of_int s / of_int t :: rat) \<le> of_int 1"
    using assms by simp
  have f0: "0 \<le> to_float (of_int s / of_int t)"
    using q0 by (rule to_float_nonneg)
  have f1: "to_float (of_int s / of_int t) \<le> of_int 1"
    using q0 q1 by (rule to_float_le_int) simp
  have p0: "0 \<le> to_float (of_int s / of_int t) * 100"
    using f0 by simp
  then show "0 \<le> float_mul (int_true_div s t) 100"
    unfolding float_mul_def int_true_div_def by (rule to_float_nonneg)
  have "to_float (of_int s / of_int t) * 100 \<le> of_int 100"
    using f1 by simp
  with p0 have "to_float (to_float (of_int s / of_int t) * 100) \<le> of_int 100"
    by (rule to_float_le_int) simp
  then show "float_mul (int_true_div s t) 100 \<le> 100"
    by (simp add: float_mul_def int_true_div_def)
qed

lemma percentage_of_none: "float_mul (int_true_div 0 t) 100 = 0"
  by (simp add: float_mul_def int_true_div_def to_float_zero)

lemma percentage_of_half: "float_mul (int_true_div 1 2) 100 = 50"
  by code_simp

section \<open>Properties of the citation parser and of the enrichment\<close>

lemma parse_resources_not_string:
  assumes "\<not> is_string p"
  shows "parse_resources loads p = Inr (if truthy p then resources_of_parsed p else [])"
  using assms by (cases p) (simp_all add: parse_resources_def parse_resources_try_def)

lemma parse_resources_decoded:
  assumes "s \<noteq> []" and "loads s = Inr v"
  shows "parse_resources loads (JStr s) = Inr (resources_of_parsed v)"
  using assms by (simp add: parse_resources_def parse_resources_try_def)

lemma parse_resources_decode_error:
  assumes "loads s = Inl e" and "e = JSONDecodeError \<or> e = TypeError"
  shows "parse_resources loads (JStr s) = Inr []"
  using assms by (auto simp: parse_resources_def parse_resources_try_def)

lemma parse_resources_returns:
  assumes "decoder_handled loads p"
  shows "\<exists>xs. parse_resources loads p = Inr xs"
proof (cases "is_string p")
  case False
  then show ?thesis
    by (simp add: parse_resources_not_string)
next
  case True
  then obtain s where p: "p = JStr s"
    by (cases p) simp_all
  show ?thesis
  proof (cases "loads s")
    case (Inl e)
    with assms p have "e = JSONDecodeError \<or> e = TypeError"
      by (simp add: decoder_handled_def)
    with Inl p show ?thesis
      by (simp add: parse_resources_decode_error)
  next
    case (Inr v)
    with p show ?thesis
      by (cases "s = []") (simp_all add: parse_resources_def parse_resources_try_def)
  qed
qed

text \<open>
  An exception of the decoder that the handler does not name leaves \<^verbatim>\<open>parse_resources\<close>,
  and with it \<^verbatim>\<open>analyze_data\<close>.
\<close>

lemma parse_resources_propagates:
  assumes "s \<noteq> []" and "loads s = Inl e" and "e \<noteq> JSONDecodeError" and "e \<noteq> TypeError"
  shows "parse_resources loads (JStr s) = Inl e"
  using assms by (cases e) (simp_all add: parse_resources_def parse_resources_try_def)

lemma count_sources_eq:
  "count_sources xs n ds =
     (n + int (length (filter mentions (mappings xs))), ds @ map detail_of (mappings xs))"
  by (induction xs n ds rule: count_sources.induct)
     (simp_all add: Let_def mentions_def detail_of_def)

lemma length_mappings: "length (mappings xs) = length (filter is_mapping xs)"
  by (induction xs rule: mappings.induct) simp_all

lemma length_filter_full: "length (filter P xs) = length xs \<longleftrightarrow> (\<forall>x \<in> set xs. P x)"
proof (induction xs)
  case Nil
  then show ?case by simp
next
  case (Cons x xs)
  have "length (filter P xs) \<noteq> Suc (length xs)"
    using length_filter_le [of P xs] by linarith
  with Cons show ?case
    by auto
qed

lemma length_mappings_le: "length (mappings xs) \<le> length xs"
  by (simp add: length_mappings)

lemma analyze_record_eq:
  assumes "parse_resources loads (dict_get qe ''resources'' JNull) = Inr xs"
  shows "\<exists>r. analyze_record loads qe = Inr r \<and>
     resources_parsed r = xs \<and>
     total_sources r = int (length xs) \<and>
     sources_with_brand r = int (length (filter mentions (mappings xs))) \<and>
     sources_details r = map detail_of (mappings xs) \<and>
     brand_mention_percentage r =
       (if total_sources r > 0
        then float_mul (int_true_div (sources_with_brand r) (total_sources r)) 100 else 0) \<and>
     product_in_results r = dict_get qe ''product_in_results'' (JInt 0) \<and>
     brand_in_response r = truthy (dict_get qe ''product_in_results'' (JInt 0)) \<and>
     resources_raw r = dict_get qe ''resources'' JNull"
  using assms by (simp add: analyze_record_def count_sources_eq Let_def)

lemma analyze_record_raises:
  assumes "parse_resources loads (dict_get qe ''resources'' JNull) = Inl e"
  shows "analyze_record loads qe = Inl e"
  using assms by (simp add: analyze_record_def)

lemma analyze_record_parsed:
  assumes "analyze_record loads qe = Inr r"
  shows "\<exists>xs. parse_resources loads (dict_get qe ''resources'' JNull) = Inr xs"
proof (cases "parse_resources loads (dict_get qe ''resources'' JNull)")
  case (Inl e)
  then have "analyze_record loads qe = Inl e"
    by (rule analyze_record_raises)
  with assms show ?thesis by simp
next
  case (Inr xs)
  then show ?thesis by blast
qed

text \<open>
  C1, as the code has it. For every raw record whose payload \<^verbatim>\<open>parse_resources\<close> turns
  into a list, the enrichment returns a record whose \<^verbatim>\<open>total_sources\<close> is the length of
  that list, elements that are not dictionaries included, while \<^verbatim>\<open>sources_details\<close> has
  one entry for each element that is a dictionary. So the number of detail entries is at
  most \<^verbatim>\<open>total_sources\<close>, and equal to it exactly when every element is a dictionary.
\<close>

theorem total_sources_is_parsed_length:
  assumes "parse_resources loads (dict_get qe ''resources'' JNull) = Inr xs"
  shows "\<exists>r. analyze_record loads qe = Inr r \<and>
       total_sources r = int (length xs) \<and>
       sources_details r = map detail_of (mappings xs) \<and>
       int (length (sources_details r)) \<le> total_sources r \<and>
       (int (length (sources_details r)) = total_sources r \<longleftrightarrow> (\<forall>x \<in> set xs. is_mapping x))"
proof -
  from analyze_record_eq [OF assms] obtain r where
    r: "analyze_record loads qe = Inr r" "total_sources r = int (length xs)"
       "sources_details r = map detail_of (mappings xs)"
    by blast
  have "length (filter is_mapping xs) = length xs \<longleftrightarrow> (\<forall>x \<in> set xs. is_mapping x)"
    by (rule length_filter_full)
  with r show ?thesis
    by (auto simp: length_mappings)
qed

text \<open>The theorem at a payload of two dictionaries: two sources, two detail entries.\<close>

theorem total_sources_is_parsed_length_witness:
  "parse_resources sample_loads
      (dict_get [(''resources'', JList [JDict [(''url'', JStr ''u'')], JDict []])]
         ''resources'' JNull) = Inr [JDict [(''url'', JStr ''u'')], JDict []] \<and>
   (\<exists>r. analyze_record sample_loads
          [(''resources'', JList [JDict [(''url'', JStr ''u'')], JDict []])] = Inr r \<and>
       total_sources r = 2 \<and> length (sources_details r) = 2) \<and>
   is_mapping (JDict [(''url'', JStr ''u'')]) \<and> is_mapping (JDict [])"
proof -
  have p: "parse_resources sample_loads
      (dict_get [(''resources'', JList [JDict [(''url'', JStr ''u'')], JDict []])]
         ''resources'' JNull) = Inr [JDict [(''url'', JStr ''u'')], JDict []]"
    by (simp add: parse_resources_def parse_resources_try_def dict_get_def)
  show ?thesis
    using p total_sources_is_parsed_length [OF p] by auto
qed

text \<open>
  C1 as the specification states it fails: for the payload \<^verbatim>\<open>[1]\<close> the record has
  \<^verbatim>\<open>total_sources = 1\<close> and no detail entry.
\<close>

theorem total_sources_exceeds_details:
  "\<exists>r. analyze_record sample_loads [(''resources'', JList [JInt 1])] = Inr r \<and>
       total_sources r = 1 \<and> sources_details r = [] \<and>
       \<not> total_sources r \<le> int (length (sources_details r))"
  by (simp add: analyze_record_def parse_resources_def parse_resources_try_def dict_get_def)

text \<open>
  C2. Every record that the enrichment returns has
  \<open>0 \<le> sources_with_brand \<le> total_sources\<close> and \<open>0 \<le> brand_mention_percentage \<le> 100\<close>;
  the percentage is 0 when there is no source and the float
  \<^verbatim>\<open>sources_with_brand / total_sources * 100\<close> otherwise.
\<close>

theorem enriched_record_invariant:
  assumes "analyze_record loads qe = Inr r"
  shows "0 \<le> sources_with_brand r \<and> sources_with_brand r \<le> total_sources r \<and>
       0 \<le> brand_mention_percentage r \<and> brand_mention_percentage r \<le> 100 \<and>
       (total_sources r = 0 \<longrightarrow> brand_mention_percentage r = 0) \<and>
       (total_sources r \<noteq> 0 \<longrightarrow>
          brand_mention_percentage r =
            float_mul (int_true_div (sources_with_brand r) (total_sources r)) 100)"
proof -
  obtain xs where xs: "parse_resources loads (dict_get qe ''resources'' JNull) = Inr xs"
    using analyze_record_parsed [OF assms] by blast
  from analyze_record_eq [OF xs] assms have
    r: "total_sources r = int (length xs)"
       "sources_with_brand r = int (length (filter mentions (mappings xs)))"
       "brand_mention_percentage r =
         (if total_sources r > 0
          then float_mul (int_true_div (sources_with_brand r) (total_sources r)) 100 else 0)"
    by auto
  have "length (filter mentions (mappings xs)) \<le> length (mappings xs)"
    by simp
  also have "\<dots> \<le> length xs"
    by (rule length_mappings_le)
  finally have le: "sources_with_brand r \<le> total_sources r"
    using r by simp
  have nonneg: "0 \<le> sources_with_brand r" "0 \<le> total_sources r"
    using r by simp_all
  have pct: "0 \<le> brand_mention_percentage r \<and> brand_mention_percentage r \<le> 100"
  proof (cases "total_sources r > 0")
    case True
    with r(3) percentage_bounds [OF nonneg(1) le True] show ?thesis
      by simp
  next
    case False
    then show ?thesis using r(3) by simp
  qed
  have "total_sources r \<noteq> 0 \<longrightarrow> total_sources r > 0"
    using nonneg by simp
  with r(3) le nonneg pct show ?thesis
    by auto
qed

text \<open>
  The theorem at a record with two sources, one of which mentions the brand (50 percent),
  and at a record whose payload is \<^verbatim>\<open>None\<close> (no source, percentage 0).
\<close>

theorem enriched_record_invariant_witness:
  "(\<exists>r. analyze_record sample_loads
          [(''resources'', JList [JDict [(''is_customer_mentioned'', JBool True)], JDict []])]
            = Inr r \<and>
        total_sources r \<noteq> 0 \<and> sources_with_brand r = 1 \<and> brand_mention_percentage r = 50 \<and>
        brand_mention_percentage r \<le> 100) \<and>
   (\<exists>r. analyze_record sample_loads [(''resources'', JNull)] = Inr r \<and>
        total_sources r = 0 \<and> brand_mention_percentage r = 0)"
proof -
  obtain r where r: "analyze_record sample_loads
      [(''resources'', JList [JDict [(''is_customer_mentioned'', JBool True)], JDict []])] = Inr r"
    by (simp add: analyze_record_def parse_resources_def parse_resources_try_def dict_get_def)
  then have v: "total_sources r = 2" "sources_with_brand r = 1"
    by (auto simp: analyze_record_def parse_resources_def parse_resources_try_def dict_get_def)
  obtain r' where r': "analyze_record sample_loads [(''resources'', JNull)] = Inr r'"
    by (simp add: analyze_record_def parse_resources_def parse_resources_try_def dict_get_def)
  then have v': "total_sources r' = 0"
    by (auto simp: analyze_record_def parse_resources_def parse_resources_try_def dict_get_def)
  have "brand_mention_percentage r = 50 \<and> brand_mention_percentage r \<le> 100"
    using enriched_record_invariant [OF r] v by (simp add: percentage_of_half)
  moreover have "brand_mention_percentage r' = 0"
    using enriched_record_invariant [OF r'] v' by simp
  ultimately show ?thesis
    using r r' v v' by auto
qed

text \<open>
  C3, as the code has it. For every payload on which the decoder, if it is called, returns
  a value or raises \<^verbatim>\<open>JSONDecodeError\<close> or \<^verbatim>\<open>TypeError\<close>, \<^verbatim>\<open>parse_resources\<close> returns a
  list and does not raise, and a string that fails to decode in that way gives the empty
  list. The elements of the list are the elements of the payload as they are, dictionaries
  or not; it is \<^verbatim>\<open>analyze_data\<close> that builds one entry for each dictionary, with the
  values found under \<^verbatim>\<open>url\<close> and \<^verbatim>\<open>Domain\<close> (of any type, the empty string when absent)
  and the truth value of \<^verbatim>\<open>is_customer_mentioned\<close>.
\<close>

theorem parse_resources_returns_list:
  assumes "decoder_handled loads p"
  shows "(\<exists>xs. parse_resources loads p = Inr xs) \<and>
   (\<not> is_string p \<longrightarrow>
      parse_resources loads p = Inr (if truthy p then resources_of_parsed p else [])) \<and>
   (\<forall>s v. p = JStr s \<and> s \<noteq> [] \<and> loads s = Inr v \<longrightarrow>
      parse_resources loads p = Inr (resources_of_parsed v)) \<and>
   (\<forall>s e. p = JStr s \<and> loads s = Inl e \<longrightarrow> parse_resources loads p = Inr []) \<and>
   (\<forall>xs. dict_get qe ''resources'' JNull = p \<and> parse_resources loads p = Inr xs \<longrightarrow>
      (\<exists>r. analyze_record loads qe = Inr r \<and> resources_parsed r = xs \<and>
           sources_details r = map detail_of (mappings xs)))"
proof (intro conjI allI impI)
  show "\<exists>xs. parse_resources loads p = Inr xs"
    using assms by (rule parse_resources_returns)
next
  assume "\<not> is_string p"
  then show "parse_resources loads p = Inr (if truthy p then resources_of_parsed p else [])"
    by (rule parse_resources_not_string)
next
  fix s v
  assume "p = JStr s \<and> s \<noteq> [] \<and> loads s = Inr v"
  then show "parse_resources loads p = Inr (resources_of_parsed v)"
    by (simp add: parse_resources_decoded)
next
  fix s e
  assume a: "p = JStr s \<and> loads s = Inl e"
  with assms have "e = JSONDecodeError \<or> e = TypeError"
    by (simp add: decoder_handled_def)
  with a show "parse_resources loads p = Inr []"
    by (simp add: parse_resources_decode_error)
next
  fix xs
  assume "dict_get qe ''resources'' JNull = p \<and> parse_resources loads p = Inr xs"
  then have "parse_resources loads (dict_get qe ''resources'' JNull) = Inr xs"
    by simp
  from analyze_record_eq [OF this]
  show "\<exists>r. analyze_record loads qe = Inr r \<and> resources_parsed r = xs \<and>
           sources_details r = map detail_of (mappings xs)"
    by blast
qed

text \<open>
  The theorem at the string \<^verbatim>\<open>not json\<close>, which does not decode, and at a record with one
  well-formed citation.
\<close>

theorem parse_resources_returns_list_witness:
  "decoder_handled sample_loads (JStr ''not json'') \<and>
   sample_loads ''not json'' = Inl JSONDecodeError \<and>
   parse_resources sample_loads (JStr ''not json'') = Inr [] \<and>
   decoder_handled sample_loads
     (JList [JDict [(''url'', JStr ''http://a.com/x''),
        (''Domain'', JStr ''a.com''), (''is_customer_mentioned'', JBool True)]]) \<and>
   (\<exists>r. analyze_record sample_loads
          [(''resources'', JList [JDict [(''url'', JStr ''http://a.com/x''),
             (''Domain'', JStr ''a.com''), (''is_customer_mentioned'', JBool True)]])] = Inr r \<and>
        sources_details r =
          [\<lparr>url = JStr ''http://a.com/x'', domain = JStr ''a.com'',
            is_customer_mentioned = True\<rparr>])"
proof -
  have h: "decoder_handled sample_loads (JStr ''not json'')"
    by (simp add: decoder_handled_def sample_loads_def empty_body_def two_records_body_def)
  have l: "sample_loads ''not json'' = Inl JSONDecodeError"
    by (simp add: sample_loads_def empty_body_def two_records_body_def)
  let ?p = "JList [JDict [(''url'', JStr ''http://a.com/x''),
        (''Domain'', JStr ''a.com''), (''is_customer_mentioned'', JBool True)]]"
  have h': "decoder_handled sample_loads ?p"
    by (simp add: decoder_handled_def)
  have g: "dict_get [(''resources'', ?p)] ''resources'' JNull = ?p"
    by (simp add: dict_get_def)
  have "parse_resources sample_loads (JStr ''not json'') = Inr []"
    using parse_resources_returns_list [OF h, of "[]"] l by simp
  moreover have "\<exists>r. analyze_record sample_loads [(''resources'', ?p)] = Inr r \<and>
        sources_details r =
          [\<lparr>url = JStr ''http://a.com/x'', domain = JStr ''a.com'',
            is_customer_mentioned = True\<rparr>]"
    using parse_resources_returns_list [OF h', of "[(''resources'', ?p)]"] g
    by (auto simp: detail_of_def mentions_def dict_get_def)
  ultimately show ?thesis
    using h l h' by simp
qed

text \<open>
  C3 as the specification states it fails: the payload \<^verbatim>\<open>[1]\<close> is returned as it is, with
  an element that is no record, and a citation whose \<^verbatim>\<open>url\<close> is the number 5 gives a
  detail entry whose \<^verbatim>\<open>url\<close> is that number, not a string.
\<close>

theorem parsed_elements_are_raw:
  "parse_resources sample_loads (JList [JInt 1]) = Inr [JInt 1] \<and>
   \<not> is_mapping (JInt 1) \<and>
   (\<exists>r. analyze_record sample_loads
          [(''resources'', JList [JDict [(''url'', JInt 5)]])] = Inr r \<and>
        sources_details r = [\<lparr>url = JInt 5, domain = JStr '''', is_customer_mentioned = False\<rparr>] \<and>
        \<not> is_string (url (hd (sources_details r))))"
  by (simp add: analyze_record_def parse_resources_def parse_resources_try_def dict_get_def)

text \<open>
  C4, as the code has it. For every mapping payload that is not empty and has no
  \<^verbatim>\<open>resources\<close> key, \<^verbatim>\<open>parse_resources\<close> returns the one-element list of the mapping
  itself, and enriching a record with that payload gives \<^verbatim>\<open>total_sources = 1\<close>.
\<close>

theorem bare_mapping_is_single_source:
  assumes "kvs \<noteq> []" and "map_of kvs ''resources'' = None"
  shows "parse_resources loads (JDict kvs) = Inr [JDict kvs] \<and>
     (dict_get qe ''resources'' JNull = JDict kvs \<longrightarrow>
        (\<exists>r. analyze_record loads qe = Inr r \<and> total_sources r = 1))"
proof -
  have p: "parse_resources loads (JDict kvs) = Inr [JDict kvs]"
    using assms by (simp add: parse_resources_def parse_resources_try_def)
  show ?thesis
  proof (intro conjI impI)
    show "parse_resources loads (JDict kvs) = Inr [JDict kvs]"
      by (rule p)
  next
    assume "dict_get qe ''resources'' JNull = JDict kvs"
    with p have "parse_resources loads (dict_get qe ''resources'' JNull) = Inr [JDict kvs]"
      by simp
    from analyze_record_eq [OF this]
    show "\<exists>r. analyze_record loads qe = Inr r \<and> total_sources r = 1"
      by auto
  qed
qed

text \<open>The theorem at the bare mapping of the specification's example.\<close>

theorem bare_mapping_is_single_source_witness:
  "[(''Domain'', JStr ''b.com''), (''url'', JStr ''http://b.com''),
    (''is_customer_mentioned'', JBool False)] \<noteq> [] \<and>
   map_of [(''Domain'', JStr ''b.com''), (''url'', JStr ''http://b.com''),
    (''is_customer_mentioned'', JBool False)] ''resources'' = None \<and>
   dict_get [(''resources'', JDict [(''Domain'', JStr ''b.com''), (''url'', JStr ''http://b.com''),
    (''is_customer_mentioned'', JBool False)])] ''resources'' JNull =
     JDict [(''Domain'', JStr ''b.com''), (''url'', JStr ''http://b.com''),
    (''is_customer_mentioned'', JBool False)] \<and>
   (\<exists>r. analyze_record sample_loads
          [(''resources'', JDict [(''Domain'', JStr ''b.com''), (''url'', JStr ''http://b.com''),
             (''is_customer_mentioned'', JBool False)])] = Inr r \<and>
        total_sources r = 1 \<and> sources_with_brand r = 0 \<and> brand_mention_percentage r = 0)"
proof -
  have a: "[(''Domain'', JStr ''b.com''), (''url'', JStr ''http://b.com''),
    (''is_customer_mentioned'', JBool False)] \<noteq> []"
    by simp
  have b: "map_of [(''Domain'', JStr ''b.com''), (''url'', JStr ''http://b.com''),
    (''is_customer_mentioned'', JBool False)] ''resources'' = None"
    by simp
  show ?thesis
    using bare_mapping_is_single_source [OF a b, of sample_loads
      "[(''resources'', JDict [(''Domain'', JStr ''b.com''), (''url'', JStr ''http://b.com''),
             (''is_customer_mentioned'', JBool False)])]"]
    by (auto simp: analyze_record_def parse_resources_def parse_resources_try_def dict_get_def
          percentage_of_none)
qed

text \<open>
  C4 as the specification states it fails at the empty mapping: it has no \<^verbatim>\<open>resources\<close>
  key, but it is falsy, so \<^verbatim>\<open>parse_resources\<close> returns the empty list and the record has
  \<^verbatim>\<open>total_sources = 0\<close>.
\<close>

theorem empty_mapping_has_no_source:
  "map_of ([] :: pydict) ''resources'' = None \<and>
   parse_resources sample_loads (JDict []) = Inr [] \<and>
   (\<exists>r. analyze_record sample_loads [(''resources'', JDict [])] = Inr r \<and> total_sources r = 0)"
  by (simp add: analyze_record_def parse_resources_def parse_resources_try_def dict_get_def)

section \<open>Properties of the filter\<close>

lemma analyze_loop_sound:
  "analyze_loop loads qs acc = Inr res \<Longrightarrow>
   \<exists>rs. res = acc @ rs \<and> list_all2 (\<lambda>qe r. analyze_record loads qe = Inr r) qs rs"
proof (induction qs arbitrary: acc)
  case Nil
  then show ?case by simp
next
  case (Cons qe qs)
  show ?case
  proof (cases "analyze_record loads qe")
    case (Inl e)
    with Cons.prems show ?thesis by simp
  next
    case (Inr r)
    with Cons.prems have "analyze_loop loads qs (acc @ [r]) = Inr res"
      by simp
    from Cons.IH [OF this] obtain rs where
      rs: "res = (acc @ [r]) @ rs" "list_all2 (\<lambda>qe r. analyze_record loads qe = Inr r) qs rs"
      by blast
    have "res = acc @ (r # rs)"
      using rs(1) by simp
    moreover have "list_all2 (\<lambda>qe r. analyze_record loads qe = Inr r) (qe # qs) (r # rs)"
      using Inr rs(2) by simp
    ultimately show ?thesis by blast
  qed
qed

lemma analyze_loop_complete:
  "\<forall>qe \<in> set qs. \<exists>r. analyze_record loads qe = Inr r \<Longrightarrow>
   \<exists>rs. analyze_loop loads qs acc = Inr (acc @ rs) \<and>
        list_all2 (\<lambda>qe r. analyze_record loads qe = Inr r) qs rs"
proof (induction qs arbitrary: acc)
  case Nil
  then show ?case by simp
next
  case (Cons qe qs)
  from Cons.prems obtain r where r: "analyze_record loads qe = Inr r"
    by auto
  from Cons.prems have "\<forall>qe \<in> set qs. \<exists>r. analyze_record loads qe = Inr r"
    by simp
  from Cons.IH [OF this, of "acc @ [r]"] obtain rs where
    rs: "analyze_loop loads qs (acc @ [r]) = Inr ((acc @ [r]) @ rs)"
        "list_all2 (\<lambda>qe r. analyze_record loads qe = Inr r) qs rs"
    by blast
  have "analyze_loop loads (qe # qs) acc = Inr (acc @ (r # rs))"
    using r rs(1) by simp
  moreover have "list_all2 (\<lambda>qe r. analyze_record loads qe = Inr r) (qe # qs) (r # rs)"
    using r rs(2) by simp
  ultimately show ?case by blast
qed

lemma analyze_data_sound:
  assumes "analyze_data loads qs = Inr rs"
  shows "list_all2 (\<lambda>qe r. analyze_record loads qe = Inr r) qs rs"
  using analyze_loop_sound [of loads qs "[]" rs] assms by (simp add: analyze_data_def)

lemma analyze_data_complete:
  assumes "\<forall>qe \<in> set qs. \<exists>r. analyze_record loads qe = Inr r"
  shows "\<exists>rs. analyze_data loads qs = Inr rs \<and>
        list_all2 (\<lambda>qe r. analyze_record loads qe = Inr r) qs rs"
  using analyze_loop_complete [OF assms, of "[]"] by (simp add: analyze_data_def)

lemma spec_keeps_parsed:
  assumes "spec_keeps loads qe"
  shows "\<exists>xs. parse_resources loads (dict_get qe ''resources'' JNull) = Inr xs \<and> xs \<noteq> []"
    and "truthy (dict_get qe ''resources'' JNull)"
  using assms by (simp_all add: spec_keeps_def split: sum.splits)

lemma records_with_sources_step:
  "records_with_sources loads (JDict rcd # rest) kept =
     (case parse_resources loads (dict_get rcd ''resources'' JNull) of
        Inl e \<Rightarrow> Inl e
      | Inr xs \<Rightarrow>
          records_with_sources loads rest (if spec_keeps loads rcd then kept @ [rcd] else kept))"
proof (cases "parse_resources loads (dict_get rcd ''resources'' JNull)")
  case (Inl e)
  have "truthy (dict_get rcd ''resources'' JNull)"
  proof (rule ccontr)
    assume "\<not> truthy (dict_get rcd ''resources'' JNull)"
    then have "parse_resources loads (dict_get rcd ''resources'' JNull) = Inr []"
      by (simp add: parse_resources_def)
    with Inl show False by simp
  qed
  with Inl show ?thesis
    by (simp add: Let_def)
next
  case (Inr xs)
  show ?thesis
  proof (cases "truthy (dict_get rcd ''resources'' JNull)")
    case True
    with Inr show ?thesis
      by (simp add: Let_def spec_keeps_def)
  next
    case False
    with Inr show ?thesis
      by (simp add: Let_def spec_keeps_def)
  qed
qed

lemma records_with_sources_sound:
  "records_with_sources loads (map JDict qs) kept = Inr res \<Longrightarrow>
   res = kept @ filter (spec_keeps loads) qs"
proof (induction qs arbitrary: kept)
  case Nil
  then show ?case by simp
next
  case (Cons q qs)
  let ?kept = "if spec_keeps loads q then kept @ [q] else kept"
  from Cons.prems have
    step: "(case parse_resources loads (dict_get q ''resources'' JNull) of
        Inl e \<Rightarrow> Inl e
      | Inr xs \<Rightarrow> records_with_sources loads (map JDict qs) ?kept) = Inr res"
    by (simp only: list.map records_with_sources_step)
  show ?case
  proof (cases "parse_resources loads (dict_get q ''resources'' JNull)")
    case (Inl e)
    with step show ?thesis by simp
  next
    case (Inr xs)
    with step have "records_with_sources loads (map JDict qs) ?kept = Inr res"
      by simp
    then have "res = ?kept @ filter (spec_keeps loads) qs"
      by (rule Cons.IH)
    then show ?thesis by simp
  qed
qed

lemma records_with_sources_complete:
  "\<forall>q \<in> set qs. decoder_handled loads (dict_get q ''resources'' JNull) \<Longrightarrow>
   records_with_sources loads (map JDict qs) kept = Inr (kept @ filter (spec_keeps loads) qs)"
proof (induction qs arbitrary: kept)
  case Nil
  then show ?case by simp
next
  case (Cons q qs)
  let ?kept = "if spec_keeps loads q then kept @ [q] else kept"
  from Cons.prems have "decoder_handled loads (dict_get q ''resources'' JNull)"
    by simp
  then obtain xs where xs: "parse_resources loads (dict_get q ''resources'' JNull) = Inr xs"
    using parse_resources_returns by blast
  from Cons.prems have "\<forall>q \<in> set qs. decoder_handled loads (dict_get q ''resources'' JNull)"
    by simp
  then have "records_with_sources loads (map JDict qs) ?kept =
      Inr (?kept @ filter (spec_keeps loads) qs)"
    by (rule Cons.IH)
  moreover have "records_with_sources loads (map JDict (q # qs)) kept =
      records_with_sources loads (map JDict qs) ?kept"
    using xs by (simp only: list.map records_with_sources_step sum.case)
  ultimately show ?case by simp
qed

lemma records_with_sources_kept:
  "records_with_sources loads xs kept = Inr res \<Longrightarrow>
   \<forall>q \<in> set kept. spec_keeps loads q \<Longrightarrow> \<forall>q \<in> set res. spec_keeps loads q"
proof (induction xs arbitrary: kept)
  case Nil
  then show ?case by simp
next
  case (Cons x xs)
  show ?case
  proof (cases x)
    case (JDict rcd)
    let ?kept = "if spec_keeps loads rcd then kept @ [rcd] else kept"
    from Cons.prems(1) JDict have
      step: "(case parse_resources loads (dict_get rcd ''resources'' JNull) of
          Inl e \<Rightarrow> Inl e
        | Inr ys \<Rightarrow> records_with_sources loads xs ?kept) = Inr res"
      by (simp only: records_with_sources_step)
    show ?thesis
    proof (cases "parse_resources loads (dict_get rcd ''resources'' JNull)")
      case (Inl e)
      with step show ?thesis by simp
    next
      case (Inr ys)
      with step have "records_with_sources loads xs ?kept = Inr res"
        by simp
      moreover have "\<forall>q \<in> set ?kept. spec_keeps loads q"
        using Cons.prems(2) by simp
      ultimately show ?thesis
        by (rule Cons.IH)
    qed
  qed (use Cons.prems(1) in simp_all)
qed

lemma fetch_kept:
  assumes "fetch_queries_execution_data api_key loads outcome = Inr kept"
  shows "\<forall>q \<in> set kept. spec_keeps loads q"
proof (cases "truthy (api_call api_key loads outcome)")
  case False
  with assms show ?thesis
    by (simp add: fetch_queries_execution_data_def Let_def)
next
  case True
  show ?thesis
  proof (cases "api_call api_key loads outcome")
    case (JList records)
    with assms True have "records_with_sources loads records [] = Inr kept"
      by (simp add: fetch_queries_execution_data_def Let_def)
    from records_with_sources_kept [OF this] show ?thesis
      by simp
  qed (use assms True in \<open>simp_all add: fetch_queries_execution_data_def Let_def\<close>)
qed

lemma kept_record_has_source:
  assumes "spec_keeps loads qe" and "analyze_record loads qe = Inr r"
  shows "1 \<le> total_sources r \<and> resources_raw r \<noteq> JNull"
proof -
  from spec_keeps_parsed [OF assms(1)] obtain xs where
    xs: "parse_resources loads (dict_get qe ''resources'' JNull) = Inr xs" and ne: "xs \<noteq> []"
    and t: "truthy (dict_get qe ''resources'' JNull)"
    by blast
  from analyze_record_eq [OF xs] assms(2)
  have "total_sources r = int (length xs)" "resources_raw r = dict_get qe ''resources'' JNull"
    by auto
  moreover have "1 \<le> int (length xs)"
    using ne by (cases xs) simp_all
  moreover have "dict_get qe ''resources'' JNull \<noteq> JNull"
    using t by auto
  ultimately show ?thesis by simp
qed

text \<open>The enrichment returns on everything that the filter has kept.\<close>

lemma analyze_data_of_kept:
  assumes "\<forall>q \<in> set kept. spec_keeps loads q"
  shows "\<exists>rs. analyze_data loads kept = Inr rs \<and>
        list_all2 (\<lambda>qe r. analyze_record loads qe = Inr r) kept rs"
proof (rule analyze_data_complete, rule ballI)
  fix qe
  assume "qe \<in> set kept"
  with assms have "spec_keeps loads qe"
    by simp
  from spec_keeps_parsed(1) [OF this] obtain xs where
    "parse_resources loads (dict_get qe ''resources'' JNull) = Inr xs"
    by blast
  from analyze_record_eq [OF this] show "\<exists>r. analyze_record loads qe = Inr r"
    by blast
qed

text \<open>
  C5. When the filter loop of \<^verbatim>\<open>fetch_queries_execution_data\<close> returns, it has kept exactly
  the records whose \<^verbatim>\<open>resources\<close> field is truthy and for which \<^verbatim>\<open>parse_resources\<close>, the
  function that \<^verbatim>\<open>analyze_data\<close> calls too, returns at least one element; and it returns
  whenever the decoder raises nothing but what \<^verbatim>\<open>parse_resources\<close> catches. Whatever the
  fetch returns, \<^verbatim>\<open>analyze_data\<close> turns it into as many records, each with
  \<^verbatim>\<open>total_sources\<close> at least 1 and a \<^verbatim>\<open>resources\<close> field that is not \<^verbatim>\<open>None\<close>.
\<close>

theorem filter_agrees_with_enrichment:
  "(records_with_sources loads (map JDict qs) [] = Inr res \<longrightarrow>
      res = filter (spec_keeps loads) qs) \<and>
   ((\<forall>q \<in> set qs. decoder_handled loads (dict_get q ''resources'' JNull)) \<longrightarrow>
      records_with_sources loads (map JDict qs) [] = Inr (filter (spec_keeps loads) qs)) \<and>
   (fetch_queries_execution_data api_key loads outcome = Inr kept \<longrightarrow>
      (\<exists>rs. analyze_data loads kept = Inr rs \<and> length rs = length kept \<and>
         (\<forall>r \<in> set rs. 1 \<le> total_sources r \<and> resources_raw r \<noteq> JNull)))"
proof (intro conjI impI)
  assume "records_with_sources loads (map JDict qs) [] = Inr res"
  from records_with_sources_sound [OF this] show "res = filter (spec_keeps loads) qs"
    by simp
next
  assume "\<forall>q \<in> set qs. decoder_handled loads (dict_get q ''resources'' JNull)"
  from records_with_sources_complete [OF this, of "[]"]
  show "records_with_sources loads (map JDict qs) [] = Inr (filter (spec_keeps loads) qs)"
    by simp
next
  assume f: "fetch_queries_execution_data api_key loads outcome = Inr kept"
  obtain rs where rs: "analyze_data loads kept = Inr rs"
    "list_all2 (\<lambda>qe r. analyze_record loads qe = Inr r) kept rs"
    using analyze_data_of_kept [OF fetch_kept [OF f]] by blast
  have "1 \<le> total_sources r \<and> resources_raw r \<noteq> JNull" if "r \<in> set rs" for r
  proof -
    from that obtain i where i: "i < length rs" "rs ! i = r"
      by (auto simp: in_set_conv_nth)
    from rs(2) i have "i < length kept" "analyze_record loads (kept ! i) = Inr r"
      by (auto simp: list_all2_conv_all_nth)
    then have "kept ! i \<in> set kept" "analyze_record loads (kept ! i) = Inr r"
      by simp_all
    then have "spec_keeps loads (kept ! i)"
      using fetch_kept [OF f] by blast
    then show ?thesis
      using \<open>analyze_record loads (kept ! i) = Inr r\<close> by (rule kept_record_has_source)
  qed
  moreover have "length rs = length kept"
    using rs(2) by (simp add: list_all2_lengthD)
  ultimately show "\<exists>rs. analyze_data loads kept = Inr rs \<and> length rs = length kept \<and>
         (\<forall>r \<in> set rs. 1 \<le> total_sources r \<and> resources_raw r \<noteq> JNull)"
    using rs(1) by blast
qed

text \<open>
  The theorem at two records, one without citations, and at a response of the API with two
  records of which the second has \<^verbatim>\<open>resources = null\<close>: only the first is kept and
  enriched.
\<close>

theorem filter_agrees_with_enrichment_witness:
  "decoder_handled sample_loads (dict_get [(''resources'', JNull)] ''resources'' JNull) \<and>
   decoder_handled sample_loads
     (dict_get [(''resources'', JList [JDict []])] ''resources'' JNull) \<and>
   records_with_sources sample_loads
      (map JDict [[(''resources'', JNull)], [(''resources'', JList [JDict []])]]) []
     = Inr [[(''resources'', JList [JDict []])]] \<and>
   filter (spec_keeps sample_loads) [[(''resources'', JNull)], [(''resources'', JList [JDict []])]]
     = [[(''resources'', JList [JDict []])]] \<and>
   fetch_queries_execution_data ''key'' sample_loads (Inr two_records_body)
     = Inr [[(''id'', JInt 1), (''product_in_results'', JInt 1),
             (''resources'', JList [JDict [(''is_customer_mentioned'', JBool True)]])]] \<and>
   (\<exists>rs. analyze_data sample_loads
            [[(''id'', JInt 1), (''product_in_results'', JInt 1),
              (''resources'', JList [JDict [(''is_customer_mentioned'', JBool True)]])]] = Inr rs \<and>
         length rs = 1 \<and>
         (\<forall>r \<in> set rs. 1 \<le> total_sources r \<and> resources_raw r \<noteq> JNull))"
proof -
  have f: "fetch_queries_execution_data ''key'' sample_loads (Inr two_records_body)
     = Inr [[(''id'', JInt 1), (''product_in_results'', JInt 1),
             (''resources'', JList [JDict [(''is_customer_mentioned'', JBool True)]])]]"
    by (simp add: fetch_queries_execution_data_def api_call_def api_call_try_def
          sample_loads_def two_records_body_def empty_body_def dict_get_def
          parse_resources_def parse_resources_try_def)
  have k: "filter (spec_keeps sample_loads)
      [[(''resources'', JNull)], [(''resources'', JList [JDict []])]]
     = [[(''resources'', JList [JDict []])]]"
    by (simp add: spec_keeps_def dict_get_def parse_resources_def parse_resources_try_def)
  have h: "\<forall>q \<in> set [[(''resources'', JNull)], [(''resources'', JList [JDict []])]].
      decoder_handled sample_loads (dict_get q ''resources'' JNull)"
    by (simp add: decoder_handled_def dict_get_def)
  have l: "records_with_sources sample_loads
      (map JDict [[(''resources'', JNull)], [(''resources'', JList [JDict []])]]) []
     = Inr [[(''resources'', JList [JDict []])]]"
    by (simp add: dict_get_def parse_resources_def parse_resources_try_def)
  show ?thesis
    using filter_agrees_with_enrichment
      [of sample_loads "[[(''resources'', JNull)], [(''resources'', JList [JDict []])]]"
          "[[(''resources'', JList [JDict []])]]"
          "''key''" "Inr two_records_body"
          "[[(''id'', JInt 1), (''product_in_results'', JInt 1),
             (''resources'', JList [JDict [(''is_customer_mentioned'', JBool True)]])]]"]
      h l
    unfolding f k by (simp add: decoder_handled_def dict_get_def)
qed

section \<open>Properties of the summary\<close>

lemma count_mentions_eq:
  "sum_list (map (\<lambda>r. if brand_in_response r then 1 else 0) rs) =
     int (length (mentioned_group rs))"
  by (induction rs) (simp_all add: mentioned_group_def)

lemma group_lengths: "length (mentioned_group rs) + length (not_mentioned_group rs) = length rs"
  by (simp add: mentioned_group_def not_mentioned_group_def sum_length_filter_compl)

lemma summary_counts:
  "total_records (generate_summary_stats rs) = int (length rs)"
  "records_with_brand_in_response (generate_summary_stats rs) = int (length (mentioned_group rs))"
  "records_without_brand_in_response (generate_summary_stats rs) =
     int (length (not_mentioned_group rs))"
  using group_lengths [of rs]
  by (simp_all add: generate_summary_stats_def Let_def count_mentions_eq)

text \<open>
  C7. \<^verbatim>\<open>generate_summary_stats\<close> splits the records by \<^verbatim>\<open>brand_in_response\<close> into two
  groups that have no record in common and together are the input; the two counts are the
  sizes of the groups and sum to the number of records; the three averages of an empty
  group are 0.
\<close>

theorem summary_partitions_records:
  "set (mentioned_group rs) \<inter> set (not_mentioned_group rs) = {} \<and>
   mset (mentioned_group rs) + mset (not_mentioned_group rs) = mset rs \<and>
   records_with_brand_in_response (generate_summary_stats rs) = int (length (mentioned_group rs)) \<and>
   records_without_brand_in_response (generate_summary_stats rs) =
     int (length (not_mentioned_group rs)) \<and>
   records_with_brand_in_response (generate_summary_stats rs) +
     records_without_brand_in_response (generate_summary_stats rs) =
     total_records (generate_summary_stats rs) \<and>
   total_records (generate_summary_stats rs) = int (length rs) \<and>
   (mentioned_group rs = [] \<longrightarrow>
      avg_sources_when_mentioned (generate_summary_stats rs) = 0 \<and>
      avg_brand_sources_when_mentioned (generate_summary_stats rs) = 0 \<and>
      avg_brand_pct_when_mentioned (generate_summary_stats rs) = 0) \<and>
   (not_mentioned_group rs = [] \<longrightarrow>
      avg_sources_when_not_mentioned (generate_summary_stats rs) = 0 \<and>
      avg_brand_sources_when_not_mentioned (generate_summary_stats rs) = 0 \<and>
      avg_brand_pct_when_not_mentioned (generate_summary_stats rs) = 0)"
proof -
  have disjoint: "set (mentioned_group rs) \<inter> set (not_mentioned_group rs) = {}"
    by (auto simp: mentioned_group_def not_mentioned_group_def)
  have whole: "mset (mentioned_group rs) + mset (not_mentioned_group rs) = mset rs"
    by (simp add: mentioned_group_def not_mentioned_group_def)
  have total: "records_with_brand_in_response (generate_summary_stats rs) +
     records_without_brand_in_response (generate_summary_stats rs) =
     total_records (generate_summary_stats rs)"
    using group_lengths [of rs] by (simp add: summary_counts)
  have empty_m: "mentioned_group rs = [] \<longrightarrow>
      avg_sources_when_mentioned (generate_summary_stats rs) = 0 \<and>
      avg_brand_sources_when_mentioned (generate_summary_stats rs) = 0 \<and>
      avg_brand_pct_when_mentioned (generate_summary_stats rs) = 0"
    by (simp add: generate_summary_stats_def Let_def)
  have empty_n: "not_mentioned_group rs = [] \<longrightarrow>
      avg_sources_when_not_mentioned (generate_summary_stats rs) = 0 \<and>
      avg_brand_sources_when_not_mentioned (generate_summary_stats rs) = 0 \<and>
      avg_brand_pct_when_not_mentioned (generate_summary_stats rs) = 0"
    by (simp add: generate_summary_stats_def Let_def)
  from disjoint whole total empty_m empty_n show ?thesis
    by (simp only: summary_counts simp_thms)
qed

text \<open>
  The theorem at a single record in which the brand is mentioned: the other group is empty,
  its averages are 0, and the counts are 1 and 0.
\<close>

theorem summary_partitions_records_witness:
  "not_mentioned_group [mentioned_example] = [] \<and>
   avg_sources_when_not_mentioned (generate_summary_stats [mentioned_example]) = 0 \<and>
   avg_brand_sources_when_not_mentioned (generate_summary_stats [mentioned_example]) = 0 \<and>
   avg_brand_pct_when_not_mentioned (generate_summary_stats [mentioned_example]) = 0 \<and>
   records_with_brand_in_response (generate_summary_stats [mentioned_example]) = 1 \<and>
   records_without_brand_in_response (generate_summary_stats [mentioned_example]) = 0 \<and>
   total_records (generate_summary_stats [mentioned_example]) = 1"
  using summary_partitions_records [of "[mentioned_example]"]
  by (simp add: not_mentioned_group_def mentioned_group_def mentioned_example_def
        blank_record_def)

lemma sum_list_map_mset:
  fixes f :: "'a \<Rightarrow> 'b::comm_monoid_add"
  assumes "mset xs = mset ys"
  shows "sum_list (map f xs) = sum_list (map f ys)"
proof -
  have "sum_mset (image_mset f (mset xs)) = sum_mset (image_mset f (mset ys))"
    using assms by simp
  then show ?thesis
    by (simp only: mset_map [symmetric] sum_mset_sum_list)
qed

lemma groups_mset:
  assumes "mset rs = mset rs'"
  shows "mset (mentioned_group rs) = mset (mentioned_group rs')"
    and "mset (not_mentioned_group rs) = mset (not_mentioned_group rs')"
  using assms by (simp_all add: mentioned_group_def not_mentioned_group_def)

lemma mset_eq_empty_iff: "mset xs = mset ys \<Longrightarrow> xs = [] \<longleftrightarrow> ys = []"
  by (metis mset_zero_iff)

lemma integer_means:
  "avg_sources_when_mentioned (generate_summary_stats rs) =
     (if mentioned_group rs \<noteq> []
      then int_true_div (sum_list (map total_sources (mentioned_group rs)))
             (int (length (mentioned_group rs)))
      else 0)"
  "avg_sources_when_not_mentioned (generate_summary_stats rs) =
     (if not_mentioned_group rs \<noteq> []
      then int_true_div (sum_list (map total_sources (not_mentioned_group rs)))
             (int (length (not_mentioned_group rs)))
      else 0)"
  "avg_brand_sources_when_mentioned (generate_summary_stats rs) =
     (if mentioned_group rs \<noteq> []
      then int_true_div (sum_list (map sources_with_brand (mentioned_group rs)))
             (int (length (mentioned_group rs)))
      else 0)"
  "avg_brand_sources_when_not_mentioned (generate_summary_stats rs) =
     (if not_mentioned_group rs \<noteq> []
      then int_true_div (sum_list (map sources_with_brand (not_mentioned_group rs)))
             (int (length (not_mentioned_group rs)))
      else 0)"
  by (simp_all add: generate_summary_stats_def Let_def)

lemma percentage_means:
  "avg_brand_pct_when_mentioned (generate_summary_stats rs) =
     (if mentioned_group rs \<noteq> []
      then float_div_int (float_sum (map brand_mention_percentage (mentioned_group rs)))
             (int (length (mentioned_group rs)))
      else 0)"
  "avg_brand_pct_when_not_mentioned (generate_summary_stats rs) =
     (if not_mentioned_group rs \<noteq> []
      then float_div_int (float_sum (map brand_mention_percentage (not_mentioned_group rs)))
             (int (length (not_mentioned_group rs)))
      else 0)"
  by (simp_all add: generate_summary_stats_def Let_def)

text \<open>
  C8, as the code has it. The summary is a function of the list of records. For every
  permutation of the list the three counts and the averages of \<^verbatim>\<open>total_sources\<close> and of
  \<^verbatim>\<open>sources_with_brand\<close> in both groups are the same, because they are correctly rounded
  quotients of integer sums. The average of \<^verbatim>\<open>brand_mention_percentage\<close> in a group is a
  sum of floats taken in the order of the list: it is the same when the records of the
  group come in the same order.
\<close>

theorem summary_order_independence:
  assumes "mset rs = mset rs'"
  shows "total_records (generate_summary_stats rs) = total_records (generate_summary_stats rs') \<and>
     records_with_brand_in_response (generate_summary_stats rs) =
       records_with_brand_in_response (generate_summary_stats rs') \<and>
     records_without_brand_in_response (generate_summary_stats rs) =
       records_without_brand_in_response (generate_summary_stats rs') \<and>
     avg_sources_when_mentioned (generate_summary_stats rs) =
       avg_sources_when_mentioned (generate_summary_stats rs') \<and>
     avg_sources_when_not_mentioned (generate_summary_stats rs) =
       avg_sources_when_not_mentioned (generate_summary_stats rs') \<and>
     avg_brand_sources_when_mentioned (generate_summary_stats rs) =
       avg_brand_sources_when_mentioned (generate_summary_stats rs') \<and>
     avg_brand_sources_when_not_mentioned (generate_summary_stats rs) =
       avg_brand_sources_when_not_mentioned (generate_summary_stats rs') \<and>
     (mentioned_group rs = mentioned_group rs' \<longrightarrow>
        avg_brand_pct_when_mentioned (generate_summary_stats rs) =
          avg_brand_pct_when_mentioned (generate_summary_stats rs')) \<and>
     (not_mentioned_group rs = not_mentioned_group rs' \<longrightarrow>
        avg_brand_pct_when_not_mentioned (generate_summary_stats rs) =
          avg_brand_pct_when_not_mentioned (generate_summary_stats rs'))"
proof -
  have len: "length rs = length rs'"
    using assms by (rule mset_eq_length)
  note m = groups_mset(1) [OF assms] and n = groups_mset(2) [OF assms]
  have m_empty: "mentioned_group rs = [] \<longleftrightarrow> mentioned_group rs' = []"
    using m by (rule mset_eq_empty_iff)
  have n_empty: "not_mentioned_group rs = [] \<longleftrightarrow> not_mentioned_group rs' = []"
    using n by (rule mset_eq_empty_iff)
  have m_len: "length (mentioned_group rs) = length (mentioned_group rs')"
    using m by (rule mset_eq_length)
  have n_len: "length (not_mentioned_group rs) = length (not_mentioned_group rs')"
    using n by (rule mset_eq_length)
  have m_sum: "sum_list (map f (mentioned_group rs)) = sum_list (map f (mentioned_group rs'))"
    for f :: "enriched \<Rightarrow> int"
    using m by (rule sum_list_map_mset)
  have n_sum: "sum_list (map f (not_mentioned_group rs)) = sum_list (map f (not_mentioned_group rs'))"
    for f :: "enriched \<Rightarrow> int"
    using n by (rule sum_list_map_mset)
  have counts: "total_records (generate_summary_stats rs) =
        total_records (generate_summary_stats rs')"
      "records_with_brand_in_response (generate_summary_stats rs) =
        records_with_brand_in_response (generate_summary_stats rs')"
      "records_without_brand_in_response (generate_summary_stats rs) =
        records_without_brand_in_response (generate_summary_stats rs')"
    by (simp_all only: summary_counts len m_len n_len)
  have means: "avg_sources_when_mentioned (generate_summary_stats rs) =
        avg_sources_when_mentioned (generate_summary_stats rs')"
      "avg_sources_when_not_mentioned (generate_summary_stats rs) =
        avg_sources_when_not_mentioned (generate_summary_stats rs')"
      "avg_brand_sources_when_mentioned (generate_summary_stats rs) =
        avg_brand_sources_when_mentioned (generate_summary_stats rs')"
      "avg_brand_sources_when_not_mentioned (generate_summary_stats rs) =
        avg_brand_sources_when_not_mentioned (generate_summary_stats rs')"
    by (simp_all only: integer_means m_empty n_empty m_len n_len m_sum n_sum)
  have pm: "avg_brand_pct_when_mentioned (generate_summary_stats rs) =
          avg_brand_pct_when_mentioned (generate_summary_stats rs')"
    if "mentioned_group rs = mentioned_group rs'"
    by (simp only: percentage_means that)
  have pn: "avg_brand_pct_when_not_mentioned (generate_summary_stats rs) =
          avg_brand_pct_when_not_mentioned (generate_summary_stats rs')"
    if "not_mentioned_group rs = not_mentioned_group rs'"
    by (simp only: percentage_means that)
  from counts means pm pn show ?thesis
    by blast
qed

lemma three_records_means:
  "avg_sources_when_mentioned (generate_summary_stats [one_in 7, one_in 6, one_in 2]) = 5"
  "avg_brand_sources_when_mentioned (generate_summary_stats [one_in 7, one_in 6, one_in 2]) = 1"
  "avg_brand_pct_when_mentioned (generate_summary_stats [one_in 7, one_in 6, one_in 2]) =
     7595356514414527 / 281474976710656"
  "avg_brand_pct_when_mentioned (generate_summary_stats [one_in 7, one_in 2, one_in 6]) =
     7595356514414525 / 281474976710656"
  by code_simp+

text \<open>
  The theorem at three records of the same group in two orders, and at two records of
  different groups in two orders, where each group keeps its order.
\<close>

theorem summary_order_independence_witness:
  "mset [one_in 7, one_in 6, one_in 2] = mset [one_in 7, one_in 2, one_in 6] \<and>
   total_records (generate_summary_stats [one_in 7, one_in 2, one_in 6]) = 3 \<and>
   avg_sources_when_mentioned (generate_summary_stats [one_in 7, one_in 2, one_in 6]) = 5 \<and>
   avg_brand_sources_when_mentioned (generate_summary_stats [one_in 7, one_in 2, one_in 6]) = 1 \<and>
   mset [mentioned_example, not_mentioned_example] =
     mset [not_mentioned_example, mentioned_example] \<and>
   mentioned_group [mentioned_example, not_mentioned_example] =
     mentioned_group [not_mentioned_example, mentioned_example] \<and>
   avg_brand_pct_when_mentioned
       (generate_summary_stats [mentioned_example, not_mentioned_example]) =
     avg_brand_pct_when_mentioned
       (generate_summary_stats [not_mentioned_example, mentioned_example])"
proof -
  have p: "mset [one_in 7, one_in 6, one_in 2] = mset [one_in 7, one_in 2, one_in 6]"
    by (simp add: add.commute)
  have q: "mset [mentioned_example, not_mentioned_example] =
     mset [not_mentioned_example, mentioned_example]"
    by (simp add: add.commute)
  have g: "mentioned_group [mentioned_example, not_mentioned_example] =
     mentioned_group [not_mentioned_example, mentioned_example]"
    by (simp add: mentioned_group_def mentioned_example_def not_mentioned_example_def
          blank_record_def)
  have t: "total_records (generate_summary_stats [one_in 7, one_in 6, one_in 2]) = 3"
    by (simp add: summary_counts)
  show ?thesis
    using summary_order_independence [OF p] summary_order_independence [OF q] p q g t
    by (simp add: three_records_means)
qed

text \<open>
  C8 as the specification states it fails: three records of the same group, with one
  source in seven, one in six and one in two mentioning the brand, have an average
  percentage of 26.984126984126984 in this order and of 26.984126984126977 when the last
  two are exchanged.
\<close>

theorem percentage_mean_depends_on_order:
  "mset [one_in 7, one_in 6, one_in 2] = mset [one_in 7, one_in 2, one_in 6] \<and>
   avg_brand_pct_when_mentioned (generate_summary_stats [one_in 7, one_in 6, one_in 2]) =
     7595356514414527 / 281474976710656 \<and>
   avg_brand_pct_when_mentioned (generate_summary_stats [one_in 7, one_in 2, one_in 6]) =
     7595356514414525 / 281474976710656 \<and>
   generate_summary_stats [one_in 7, one_in 6, one_in 2] \<noteq>
     generate_summary_stats [one_in 7, one_in 2, one_in 6]"
proof -
  have p: "mset [one_in 7, one_in 6, one_in 2] = mset [one_in 7, one_in 2, one_in 6]"
    by (simp add: add.commute)
  have "avg_brand_pct_when_mentioned (generate_summary_stats [one_in 7, one_in 6, one_in 2]) \<noteq>
      avg_brand_pct_when_mentioned (generate_summary_stats [one_in 7, one_in 2, one_in 6])"
    by (simp add: three_records_means)
  then have "generate_summary_stats [one_in 7, one_in 6, one_in 2] \<noteq>
     generate_summary_stats [one_in 7, one_in 2, one_in 6]"
    by (rule contrapos_nn) simp
  with p show ?thesis
    by (simp only: three_records_means simp_thms)
qed

section \<open>Properties of the fetch stage and of the main function\<close>

lemma api_call_failure:
  assumes "api_key = [] \<or> outcome = Inl e \<or> (outcome = Inr body \<and> loads body = Inl e')"
  shows "api_call api_key loads outcome = JNull"
  using assms by (auto simp: api_call_def api_call_try_def split: exn.splits)

lemma fetch_of_null:
  assumes "api_call api_key loads outcome = JNull"
  shows "fetch_queries_execution_data api_key loads outcome = Inr []"
  using assms by (simp add: fetch_queries_execution_data_def)

lemma main_of_empty_fetch:
  assumes "fetch_queries_execution_data api_key loads outcome = Inr []"
  shows "main api_key loads outcome io = \<lparr>written = [], raised = None\<rparr>"
  using assms by (simp add: main_def)

text \<open>
  C6, as the code has it. Every failure of the fetch stage (no credential, an exception of
  the transport or a non-success status, a body on which the decoder raises) is caught
  inside \<^verbatim>\<open>api_call\<close>, which returns \<^verbatim>\<open>None\<close>; \<^verbatim>\<open>fetch_queries_execution_data\<close> then
  returns the empty list, and \<^verbatim>\<open>main\<close> returns without raising and without writing a
  file.
\<close>

theorem fetch_failures_return_empty_list:
  assumes "api_key = [] \<or> outcome = Inl e \<or> (outcome = Inr body \<and> loads body = Inl e')"
  shows "api_call api_key loads outcome = JNull \<and>
     fetch_queries_execution_data api_key loads outcome = Inr [] \<and>
     main api_key loads outcome io = \<lparr>written = [], raised = None\<rparr>"
proof -
  have null: "api_call api_key loads outcome = JNull"
    using assms by (rule api_call_failure)
  then have empty: "fetch_queries_execution_data api_key loads outcome = Inr []"
    by (rule fetch_of_null)
  then have "main api_key loads outcome io = \<lparr>written = [], raised = None\<rparr>"
    by (rule main_of_empty_fetch)
  with null empty show ?thesis by simp
qed

text \<open>
  The theorem at a status 500 answer and at a body that is not JSON, with a credential and
  working files.
\<close>

theorem fetch_failures_return_empty_list_witness:
  "(Inl (HTTPError 500 ''Internal Server Error'') :: exn + string) =
      Inl (HTTPError 500 ''Internal Server Error'') \<and>
   api_call ''key'' sample_loads (Inl (HTTPError 500 ''Internal Server Error'')) = JNull \<and>
   fetch_queries_execution_data ''key'' sample_loads
      (Inl (HTTPError 500 ''Internal Server Error'')) = Inr [] \<and>
   main ''key'' sample_loads (Inl (HTTPError 500 ''Internal Server Error'')) io_all_ok =
      \<lparr>written = [], raised = None\<rparr> \<and>
   sample_loads ''not json'' = Inl JSONDecodeError \<and>
   main ''key'' sample_loads (Inr ''not json'') io_all_ok = \<lparr>written = [], raised = None\<rparr>"
proof -
  have l: "sample_loads ''not json'' = Inl JSONDecodeError"
    by (simp add: sample_loads_def empty_body_def two_records_body_def)
  show ?thesis
    using fetch_failures_return_empty_list
      [where api_key = "''key''" and outcome = "Inl (HTTPError 500 ''Internal Server Error'')"
         and e = "HTTPError 500 ''Internal Server Error''" and loads = sample_loads
         and io = io_all_ok]
      fetch_failures_return_empty_list
      [where api_key = "''key''" and outcome = "Inr ''not json''" and body = "''not json''"
         and loads = sample_loads and e' = JSONDecodeError and io = io_all_ok]
      l
    by simp
qed

text \<open>
  C6 as the specification states it fails: the four failures and a legitimately empty
  result set all give the same value of \<^verbatim>\<open>fetch_queries_execution_data\<close>, the empty list,
  and the same run of \<^verbatim>\<open>main\<close>; no typed failure reaches the caller.
\<close>

theorem failure_equals_no_data:
  "fetch_queries_execution_data ''key'' sample_loads (Inr empty_body) = Inr [] \<and>
   fetch_queries_execution_data '''' sample_loads (Inr empty_body) = Inr [] \<and>
   fetch_queries_execution_data ''key'' sample_loads (Inl URLError) = Inr [] \<and>
   fetch_queries_execution_data ''key'' sample_loads
      (Inl (HTTPError 500 ''Internal Server Error'')) = Inr [] \<and>
   fetch_queries_execution_data ''key'' sample_loads (Inr ''not json'') = Inr [] \<and>
   main ''key'' sample_loads (Inr empty_body) io_all_ok =
     main ''key'' sample_loads (Inl URLError) io_all_ok"
  by (simp add: main_def fetch_queries_execution_data_def api_call_def api_call_try_def
        sample_loads_def empty_body_def two_records_body_def dict_get_def)






text \<open>
  Without the hypothesis on the files a run can stop between two files: if the summary
  cannot be written, only the full data file exists when \<^verbatim>\<open>OSError\<close> propagates.
\<close>

lemma save_results_partial:
  "save_results \<lparr>makedirs_ok = True, write_ok = (\<lambda>a. a \<noteq> SummaryFile)\<rparr> rs summ =
     \<lparr>written = [FullData], raised = Some OSError\<rparr>"
  by (simp add: save_results_def)

text \<open>
  C10. For every raw record without a \<^verbatim>\<open>product_in_results\<close> field that the enrichment
  turns into a record, that record has \<^verbatim>\<open>product_in_results = 0\<close> and
  \<^verbatim>\<open>brand_in_response = False\<close>; in every analysis of a list that holds the raw record it
  belongs to the group in which the brand is not mentioned, not to the other one, and is
  counted in \<^verbatim>\<open>records_without_brand_in_response\<close>.
\<close>

theorem absent_flag_is_not_mentioned:
  assumes "map_of qe ''product_in_results'' = None" and "analyze_record loads qe = Inr r"
  shows "product_in_results r = JInt 0 \<and> \<not> brand_in_response r \<and>
       (\<forall>rs. qe \<in> set qs \<and> analyze_data loads qs = Inr rs \<longrightarrow>
          r \<in> set (not_mentioned_group rs) \<and> r \<notin> set (mentioned_group rs) \<and>
          1 \<le> records_without_brand_in_response (generate_summary_stats rs))"
proof -
  obtain xs where xs: "parse_resources loads (dict_get qe ''resources'' JNull) = Inr xs"
    using analyze_record_parsed [OF assms(2)] by blast
  from analyze_record_eq [OF xs] assms(2) have
    r: "product_in_results r = dict_get qe ''product_in_results'' (JInt 0)"
       "brand_in_response r = truthy (dict_get qe ''product_in_results'' (JInt 0))"
    by auto
  have dflt: "dict_get qe ''product_in_results'' (JInt 0) = JInt 0"
    using assms(1) by (simp add: dict_get_def)
  have flag: "product_in_results r = JInt 0" "\<not> brand_in_response r"
    using r dflt by simp_all
  have "r \<in> set (not_mentioned_group rs) \<and> r \<notin> set (mentioned_group rs) \<and>
          1 \<le> records_without_brand_in_response (generate_summary_stats rs)"
    if "qe \<in> set qs" and rs: "analyze_data loads qs = Inr rs" for rs
  proof -
    have all: "list_all2 (\<lambda>qe r. analyze_record loads qe = Inr r) qs rs"
      using rs by (rule analyze_data_sound)
    from that(1) obtain i where i: "i < length qs" "qs ! i = qe"
      by (auto simp: in_set_conv_nth)
    with all have "i < length rs" "analyze_record loads qe = Inr (rs ! i)"
      by (auto simp: list_all2_conv_all_nth)
    with assms(2) have "r \<in> set rs"
      by (metis Inr_inject nth_mem)
    with flag(2) have in_n: "r \<in> set (not_mentioned_group rs)"
      and not_m: "r \<notin> set (mentioned_group rs)"
      by (simp_all add: not_mentioned_group_def mentioned_group_def)
    from in_n have "not_mentioned_group rs \<noteq> []"
      by auto
    then have "1 \<le> int (length (not_mentioned_group rs))"
      by (cases "not_mentioned_group rs") simp_all
    then have "1 \<le> records_without_brand_in_response (generate_summary_stats rs)"
      by (simp only: summary_counts)
    with in_n not_m show ?thesis by blast
  qed
  with flag show ?thesis by blast
qed

text \<open>The theorem at a record that has citations and no \<^verbatim>\<open>product_in_results\<close> field.\<close>

theorem absent_flag_is_not_mentioned_witness:
  "map_of [(''id'', JInt 7), (''resources'', JList [JDict []])] ''product_in_results'' = None \<and>
   [(''id'', JInt 7), (''resources'', JList [JDict []])]
      \<in> set [[(''id'', JInt 7), (''resources'', JList [JDict []])]] \<and>
   (\<exists>r rs. analyze_record sample_loads [(''id'', JInt 7), (''resources'', JList [JDict []])] = Inr r \<and>
      product_in_results r = JInt 0 \<and> \<not> brand_in_response r \<and>
      analyze_data sample_loads [[(''id'', JInt 7), (''resources'', JList [JDict []])]] = Inr rs \<and>
      r \<in> set (not_mentioned_group rs) \<and>
      1 \<le> records_without_brand_in_response (generate_summary_stats rs))"
proof -
  let ?qe = "[(''id'', JInt 7), (''resources'', JList [JDict []])]"
  have a: "map_of ?qe ''product_in_results'' = None"
    by simp
  obtain r where r: "analyze_record sample_loads ?qe = Inr r"
    by (simp add: analyze_record_def parse_resources_def parse_resources_try_def dict_get_def)
  then have rs: "analyze_data sample_loads [?qe] = Inr [r]"
    by (simp add: analyze_data_def)
  have "product_in_results r = JInt 0 \<and> \<not> brand_in_response r \<and>
      r \<in> set (not_mentioned_group [r]) \<and>
      1 \<le> records_without_brand_in_response (generate_summary_stats [r])"
    using absent_flag_is_not_mentioned [OF a r, of "[?qe]"] rs by simp
  with a r rs show ?thesis
    by auto
qed

end
